theory Spec2Isabelle
  imports Main "HOL-Library.Word"
begin

unbundle bit_operations_syntax

section \<open>convert2webp: the temp-file backed buffer conversion pipeline\<close>

text \<open>
  The JavaScript sources \<^verbatim>\<open>src/temp_path.js\<close>, \<^verbatim>\<open>src/cwebp.js\<close>,
  \<^verbatim>\<open>src/webpconverter.js\<close> and \<^verbatim>\<open>src/buffer_utils.js\<close> are embedded as HOL
  functions. Everything the code reaches outside itself is explicit:
  \<^item> the file system is a map from resolved paths to nodes, and every call of the
    \<^verbatim>\<open>fs\<close> module is a function from the world to a result and the next world;
  \<^item> an exception or a rejected promise is the \<open>Inl\<close> of a sum;
  \<^item> the child process, the platform, the directories of the process and the
    identifier generator are fields of an environment record.
  An \<^verbatim>\<open>await\<close> is a sequential step: one call is followed from its start to the
  moment its promise settles, with no other call interleaved.

  Left out: the wording of the console messages (the console keeps which message was
  printed and the error it carried), symbolic links, and the Windows form of paths.
\<close>

subsection \<open>JavaScript values and strings\<close>

type_synonym path = string
type_synonym bytes = "8 word list"

text \<open>The values an optional argument of the API can hold (numbers: the integers).\<close>

datatype jsval = Undefined | Null | JBool bool | JNum int | JStr string

text \<open>JavaScript's truthiness, as \<^verbatim>\<open>customPath || ...\<close> tests it.\<close>

fun truthy :: "jsval \<Rightarrow> bool" where
  "truthy Undefined = False"
| "truthy Null = False"
| "truthy (JBool b) = b"
| "truthy (JNum n) = (n \<noteq> 0)"
| "truthy (JStr s) = (s \<noteq> [])"

text \<open>
  \<^verbatim>\<open>String.prototype.split(sep)\<close> for a separator of one character: the pieces
  between the separators, empty pieces kept; the empty string gives one empty piece.
\<close>

fun js_split :: "char \<Rightarrow> string \<Rightarrow> string list" where
  "js_split sep [] = [[]]"
| "js_split sep (c # cs) =
     (if c = sep then [] # js_split sep cs
      else (case js_split sep cs of
              [] \<Rightarrow> [[c]]
            | p # ps \<Rightarrow> (c # p) # ps))"

text \<open>\<^verbatim>\<open>Array.prototype.join(sep)\<close> on strings.\<close>

fun js_join :: "string \<Rightarrow> string list \<Rightarrow> string" where
  "js_join sep [] = []"
| "js_join sep [x] = x"
| "js_join sep (x # y # zs) = x @ sep @ js_join sep (y # zs)"

subsection \<open>Node's \<^verbatim>\<open>path\<close> module (POSIX)\<close>

text \<open>
  Paths are POSIX paths, as \<^verbatim>\<open>path.posix\<close> treats them on Linux and macOS.

  \<^verbatim>\<open>normalizeString\<close> of Node's \<^verbatim>\<open>lib/path.js\<close>, on the segments of a path:
  empty segments and \<^verbatim>\<open>.\<close> are dropped, \<^verbatim>\<open>..\<close> removes the segment before it, and
  is kept at the front of a relative path (\<open>allowAboveRoot\<close>).
\<close>

fun normalizeString :: "bool \<Rightarrow> string list \<Rightarrow> string list \<Rightarrow> string list" where
  "normalizeString allowAboveRoot res [] = res"
| "normalizeString allowAboveRoot res (s # ss) =
     (if s = [] \<or> s = ''.'' then normalizeString allowAboveRoot res ss
      else if s = ''..'' then
        (if res \<noteq> [] \<and> last res \<noteq> ''..''
           then normalizeString allowAboveRoot (butlast res) ss
         else if allowAboveRoot
           then normalizeString allowAboveRoot (res @ [''..'']) ss
         else normalizeString allowAboveRoot res ss)
      else normalizeString allowAboveRoot (res @ [s]) ss)"

definition isAbsolute :: "path \<Rightarrow> bool" where
  "isAbsolute p = (case p of [] \<Rightarrow> False | c # _ \<Rightarrow> c = CHR ''/'')"

definition trailingSeparator :: "path \<Rightarrow> bool" where
  "trailingSeparator p = (case rev p of [] \<Rightarrow> False | c # _ \<Rightarrow> c = CHR ''/'')"

definition path_normalize :: "path \<Rightarrow> path" where
  "path_normalize p =
     (if p = [] then ''.''
      else
        (let body = js_join ''/'' (normalizeString (\<not> isAbsolute p) [] (js_split (CHR ''/'') p))
         in if body = []
            then (if isAbsolute p then ''/'' else if trailingSeparator p then ''./'' else ''.'')
            else (if isAbsolute p then ''/'' else []) @ body
                 @ (if trailingSeparator p then ''/'' else [])))"

text \<open>\<^verbatim>\<open>path.join(...args)\<close>: the non-empty arguments joined by \<^verbatim>\<open>/\<close>, normalized.\<close>

definition path_join :: "string list \<Rightarrow> path" where
  "path_join args =
     (let joined = filter (\<lambda>a. a \<noteq> []) args
      in if joined = [] then ''.'' else path_normalize (js_join ''/'' joined))"

subsection \<open>Base64, as \<^verbatim>\<open>Buffer\<close> reads and writes it\<close>









subsection \<open>The world: file system, child processes, console\<close>

datatype node = File bytes | Dir

datatype errno = EACCES | EBUSY | EEXIST | EISDIR | ENOENT | ENOSPC | ENOTDIR | EPERM

text \<open>How a child process ended, as \<^verbatim>\<open>child_process\<close> reports it.\<close>

datatype proc_exit =
    Exited int
  | Killed string
  | SpawnFailed errno

record proc =
  status :: proc_exit
  stdout :: string
  stderr :: string

text \<open>
  The errors a call can throw: a system error of the \<^verbatim>\<open>fs\<close> module (its code,
  the function of \<^verbatim>\<open>fs\<close> that threw it, the path), the \<^verbatim>\<open>TypeError\<close> of an argument that is not a path, the error of
  \<^verbatim>\<open>getCwebpPath\<close> with its platform key, and the error of \<^verbatim>\<open>execFile\<close>, which
  carries how the process ended and what it printed.
\<close>

datatype fs_call = Call_mkdirSync | Call_writeFile | Call_readFile | Call_rm

datatype error =
    SystemError errno fs_call path
  | InvalidArgType
  | UnsupportedPlatform string
  | ExecError proc_exit string string

text \<open>What a call does to the world outside, in the order it does it.\<close>

datatype event =
    EvMkdir path
  | EvWriteFile path
  | EvReadFile path
  | EvRm path
  | EvExecFile path "string list"

datatype console_line =
    ConsoleWarn string
  | ConsoleError string error

type_synonym disk = "string list \<Rightarrow> node option"

text \<open>
  The environment of the process. \<open>denied\<close> is the operating system's veto: a
  system call it names fails with that code whatever the disk holds (permissions, a
  full or read-only device, a file held open elsewhere). \<open>spawn\<close> is the outside
  program: given the executable, the argument list and the disk, how it ends, what it
  prints and the disk it leaves. \<open>uuid_v4\<close> is the sequence of identifiers that
  \<^verbatim>\<open>uuid()\<close> hands out.
\<close>

record env =
  platform :: string
  arch :: string
  dirname :: path
  tmpdir :: path
  cwd :: path
  denied :: "event \<Rightarrow> errno option"
  spawn :: "path \<Rightarrow> string list \<Rightarrow> disk \<Rightarrow> proc \<times> disk"
  uuid_v4 :: "nat \<Rightarrow> string"

record world =
  disk :: disk
  trace :: "event list"
  console :: "console_line list"
  uuid_count :: nat

type_synonym 'a io = "world \<Rightarrow> (error + 'a) \<times> world"

definition emit :: "event \<Rightarrow> world \<Rightarrow> world" where
  "emit ev w = w\<lparr>trace := trace w @ [ev]\<rparr>"

definition console_log :: "console_line \<Rightarrow> world \<Rightarrow> world" where
  "console_log l w = w\<lparr>console := console w @ [l]\<rparr>"

text \<open>
  A path names the node at its resolved segments: relative paths start at the working
  directory, \<^verbatim>\<open>.\<close> and \<^verbatim>\<open>..\<close> are resolved on the text (there are no symbolic
  links). The root always is a directory.
\<close>

definition resolve :: "env \<Rightarrow> path \<Rightarrow> string list" where
  "resolve E p =
     normalizeString False []
       (js_split (CHR ''/'') (if isAbsolute p then p else cwd E @ ''/'' @ p))"

definition node_at :: "disk \<Rightarrow> string list \<Rightarrow> node option" where
  "node_at d segs = (if segs = [] then Some Dir else d segs)"

definition is_file :: "node option \<Rightarrow> bool" where
  "is_file n = (case n of Some (File _) \<Rightarrow> True | _ \<Rightarrow> False)"

definition is_dir :: "node option \<Rightarrow> bool" where
  "is_dir n = (case n of Some Dir \<Rightarrow> True | _ \<Rightarrow> False)"

text \<open>The proper ancestors of a resolved path, the nearest to the root first.\<close>

definition ancestors :: "string list \<Rightarrow> string list list" where
  "ancestors segs = map (\<lambda>n. take n segs) [1..<length segs]"

definition make_dirs :: "disk \<Rightarrow> string list list \<Rightarrow> disk" where
  "make_dirs d qs = foldl (\<lambda>d' q. d'(q \<mapsto> Dir)) d qs"

text \<open>
  \<^verbatim>\<open>fs.mkdirSync(p, { recursive: true })\<close>: creates the directory and the ancestors
  it lacks, and succeeds when the directory is there already; a regular file in the way
  is an error.
\<close>

definition mkdirSync_recursive :: "env \<Rightarrow> path \<Rightarrow> unit io" where
  "mkdirSync_recursive E p w =
     (let w1 = emit (EvMkdir p) w; segs = resolve E p in
      case denied E (EvMkdir p) of
        Some code \<Rightarrow> (Inl (SystemError code Call_mkdirSync p), w1)
      | None \<Rightarrow>
          if is_dir (node_at (disk w) segs) then (Inr (), w1)
          else if list_ex (\<lambda>q. is_file (node_at (disk w) q)) (ancestors segs)
            then (Inl (SystemError ENOTDIR Call_mkdirSync p), w1)
          else if is_file (node_at (disk w) segs)
            then (Inl (SystemError EEXIST Call_mkdirSync p), w1)
          else (Inr (), w1\<lparr>disk := make_dirs (disk w) (ancestors segs @ [segs])\<rparr>))"




text \<open>
  The promisified \<^verbatim>\<open>child_process.execFile\<close>: it resolves with what the process
  printed when the process exited with code 0, and rejects otherwise.
\<close>

definition execFile :: "env \<Rightarrow> path \<Rightarrow> string list \<Rightarrow> (string \<times> string) io" where
  "execFile E binaryPath args w =
     (let (r, d) = spawn E binaryPath args (disk w);
          w1 = (emit (EvExecFile binaryPath args) w)\<lparr>disk := d\<rparr>
      in if status r = Exited 0 then (Inr (stdout r, stderr r), w1)
         else (Inl (ExecError (status r) (stdout r) (stderr r)), w1))"


subsection \<open>\<^verbatim>\<open>src/temp_path.js\<close>\<close>

text \<open>The first line: \<^verbatim>\<open>customPath || path.join(os.tmpdir(), 'webp-converter-js')\<close>.\<close>

definition targetPath :: "env \<Rightarrow> jsval \<Rightarrow> jsval" where
  "targetPath E customPath =
     (if truthy customPath then customPath
      else JStr (path_join [tmpdir E, ''webp-converter-js'']))"

text \<open>
  \<^verbatim>\<open>mkdirSync\<close> throws a \<^verbatim>\<open>TypeError\<close> before any system call when its argument
  is not a path; the \<^verbatim>\<open>catch\<close> logs every error and throws it again.
\<close>

definition getTempPath :: "env \<Rightarrow> jsval \<Rightarrow> path io" where
  "getTempPath E customPath w =
     (case targetPath E customPath of
        JStr p \<Rightarrow>
          (case mkdirSync_recursive E p w of
             (Inl e, w1) \<Rightarrow>
               (Inl e, console_log (ConsoleError ''Failed to create temporary directory'' e) w1)
           | (Inr _, w1) \<Rightarrow> (Inr p, w1))
      | _ \<Rightarrow>
          (Inl InvalidArgType,
           console_log (ConsoleError ''Failed to create temporary directory'' InvalidArgType) w))"

subsection \<open>\<^verbatim>\<open>src/cwebp.js\<close>\<close>

definition platformConfig :: "(string \<times> string list) list" where
  "platformConfig =
     [(''darwin-x64'', [''libwebp_osx'', ''bin'', ''cwebp'']),
      (''darwin-arm64'', [''libwebp_osx'', ''bin'', ''cwebp'']),
      (''linux-x64'', [''libwebp_linux'', ''bin'', ''cwebp'']),
      (''win32-x64'', [''libwebp_win64'', ''bin'', ''cwebp.exe''])]"

definition platform_key :: "env \<Rightarrow> string" where
  "platform_key E = platform E @ ''-'' @ arch E"

definition getCwebpPath :: "env \<Rightarrow> error + path" where
  "getCwebpPath E =
     (case map_of platformConfig (platform_key E) of
        None \<Rightarrow> Inl (UnsupportedPlatform (platform_key E))
      | Some pathSegments \<Rightarrow> Inr (path_join ([dirname E, ''..'', ''bin''] @ pathSegments)))"

subsection \<open>\<^verbatim>\<open>src/webpconverter.js\<close>\<close>

definition executeCommand :: "env \<Rightarrow> path \<Rightarrow> string list \<Rightarrow> (string \<times> string) io" where
  "executeCommand E binaryPath args w =
     (case execFile E binaryPath args w of
        (Inr (out, err), w1) \<Rightarrow>
          (Inr (out, err), if err \<noteq> [] then console_log (ConsoleWarn err) w1 else w1)
      | (Inl e, w1) \<Rightarrow> (Inl e, console_log (ConsoleError ''Failed to execute'' e) w1))"

text \<open>The argument list \<^verbatim>\<open>cwebp\<close> builds; \<open>logging\<close> is \<open>None\<close> when it is left out.\<close>

definition cwebp_args :: "path \<Rightarrow> path \<Rightarrow> string \<Rightarrow> string option \<Rightarrow> string list" where
  "cwebp_args input_image output_image option logging =
     js_split (CHR '' '') option
       @ [input_image, ''-o'', output_image,
          (case logging of None \<Rightarrow> ''-quiet'' | Some l \<Rightarrow> l)]"

definition cwebp :: "env \<Rightarrow> path \<Rightarrow> path \<Rightarrow> string \<Rightarrow> string option \<Rightarrow> (string \<times> string) io" where
  "cwebp E input_image output_image option logging w =
     (let args = cwebp_args input_image output_image option logging in
      case getCwebpPath E of
        Inl e \<Rightarrow> (Inl e, w)
      | Inr binaryPath \<Rightarrow> executeCommand E binaryPath args w)"

subsection \<open>\<^verbatim>\<open>src/buffer_utils.js\<close>\<close>









subsection \<open>The vocabulary of the properties\<close>









subsection \<open>A concrete machine\<close>

text \<open>
  A stand-in for the \<^verbatim>\<open>cwebp\<close> executable, to run the model on: it reads the
  arguments from the end as \<^verbatim>\<open>cwebp\<close> lays them out, accepts an input file that
  starts with the PNG signature, writes an output file, and like \<^verbatim>\<open>cwebp\<close> prints
  its report on standard error unless it is told \<^verbatim>\<open>-quiet\<close>.
\<close>

definition png_signature :: bytes where
  "png_signature = [137, 80, 78, 71]"

definition toy_cwebp :: "path \<Rightarrow> string list \<Rightarrow> disk \<Rightarrow> proc \<times> disk" where
  "toy_cwebp binaryPath args d =
     (case rev args of
        logging # outp # dash_o # inp # opts \<Rightarrow>
          (case node_at d (normalizeString False [] (js_split (CHR ''/'') inp)) of
             Some (File b) \<Rightarrow>
               if take 4 b = png_signature
               then (\<lparr>status = Exited 0, stdout = [],
                      stderr = (if logging = ''-quiet'' then [] else ''Saving file'')\<rparr>,
                     d(normalizeString False [] (js_split (CHR ''/'') outp) \<mapsto> File (82 # 73 # 70 # 70 # b)))
               else (\<lparr>status = Exited 255, stdout = [], stderr = ''Could not process file''\<rparr>, d)
           | _ \<Rightarrow> (\<lparr>status = Exited 255, stdout = [], stderr = ''cannot open input file''\<rparr>, d))
      | _ \<Rightarrow> (\<lparr>status = Exited 255, stdout = [], stderr = ''Usage''\<rparr>, d))"

definition id_a :: string where
  "id_a = ''1b9d6bcd-bbfd-4b2d-9b5d-ab8dfbbd4bed''"

definition id_b :: string where
  "id_b = ''6ec0bd7f-11c0-43da-975e-2a8ad9ebae0b''"

definition linux_x64 :: env where
  "linux_x64 =
     \<lparr>platform = ''linux'', arch = ''x64'', dirname = ''/app/src'', tmpdir = ''/tmp'',
      cwd = ''/app'', denied = (\<lambda>ev. None), spawn = toy_cwebp,
      uuid_v4 = (\<lambda>n. if n = 0 then id_a else id_b)\<rparr>"

definition boot :: world where
  "boot =
     \<lparr>disk = [[''tmp''] \<mapsto> Dir, [''app''] \<mapsto> Dir], trace = [], console = [], uuid_count = 0\<rparr>"




section \<open>Properties\<close>

subsection \<open>Splitting and joining\<close>

lemma js_split_nonempty: "js_split sep s \<noteq> []"
  by (induction s) (auto split: list.splits)

lemma js_split_append_sep:
  "js_split sep (xs @ sep # ys) = js_split sep xs @ js_split sep ys"
proof (induction xs)
  case Nil
  then show ?case by simp
next
  case (Cons x xs)
  then show ?case
    using js_split_nonempty [of sep xs]
    by (cases "js_split sep xs") auto
qed


lemma js_split_pieces: "piece \<in> set (js_split sep s) \<Longrightarrow> sep \<notin> set piece"
proof (induction s arbitrary: piece)
  case Nil
  then show ?case by simp
next
  case (Cons c cs)
  then show ?case
    using js_split_nonempty [of sep cs]
    by (cases "js_split sep cs") (auto split: if_splits)
qed

lemma js_join_split: "js_join [sep] (js_split sep s) = s"
proof (induction s)
  case Nil
  then show ?case by simp
next
  case (Cons c cs)
  show ?case
  proof (cases "js_split sep cs")
    case Nil
    then show ?thesis using js_split_nonempty [of sep cs] by simp
  next
    case (Cons p ps)
    with Cons.IH show ?thesis by (cases ps) auto
  qed
qed

lemma trace_executeCommand:
  "trace (snd (executeCommand E binaryPath args w)) = trace w @ [EvExecFile binaryPath args]"
  by (auto simp: executeCommand_def execFile_def emit_def console_log_def Let_def
      split: prod.splits sum.splits)

text \<open>
  C9. Whatever the options string is, the argument list handed to the \<^verbatim>\<open>cwebp\<close>
  executable is the options string split at every single space, then the input path,
  the literal \<^verbatim>\<open>-o\<close>, the output path and the logging argument, which is
  \<^verbatim>\<open>-quiet\<close> when it is left out. The split keeps empty pieces: the pieces joined
  by a space give the options string back and no piece holds a space, so the empty
  string gives one empty argument and two spaces in a row give an empty argument
  between them.
\<close>

theorem cwebp_argument_list:
  assumes "getCwebpPath E = Inr binaryPath"
  shows "cwebp E input_image output_image option logging w
           = executeCommand E binaryPath
               (js_split (CHR '' '') option
                  @ [input_image, ''-o'', output_image,
                     (case logging of None \<Rightarrow> ''-quiet'' | Some l \<Rightarrow> l)]) w
         \<and> trace (snd (cwebp E input_image output_image option logging w))
           = trace w @ [EvExecFile binaryPath
               (js_split (CHR '' '') option
                  @ [input_image, ''-o'', output_image,
                     (case logging of None \<Rightarrow> ''-quiet'' | Some l \<Rightarrow> l)])]
         \<and> js_join '' '' (js_split (CHR '' '') option) = option
         \<and> (\<forall>piece \<in> set (js_split (CHR '' '') option). CHR '' '' \<notin> set piece)
         \<and> js_split (CHR '' '') [] = [[]]
         \<and> js_split (CHR '' '') (a @ ''  '' @ b)
             = js_split (CHR '' '') a @ [[]] @ js_split (CHR '' '') b"
proof -
  have "js_split (CHR '' '') (a @ ''  '' @ b)
          = js_split (CHR '' '') a @ js_split (CHR '' '') (CHR '' '' # b)"
    using js_split_append_sep [of "CHR '' ''" a "CHR '' '' # b"] by simp
  then show ?thesis
    using assms
    by (simp add: cwebp_def cwebp_args_def trace_executeCommand js_join_split js_split_pieces)
qed

theorem cwebp_argument_list_witness:
  "trace (snd (cwebp linux_x64 ''in.png'' ''out.webp'' ''-q  80'' None boot))
     = [EvExecFile ''/app/bin/libwebp_linux/bin/cwebp''
          [''-q'', [], ''80'', ''in.png'', ''-o'', ''out.webp'', ''-quiet'']]
   \<and> trace (snd (cwebp linux_x64 ''in.png'' ''out.webp'' [] None boot))
     = [EvExecFile ''/app/bin/libwebp_linux/bin/cwebp''
          [[], ''in.png'', ''-o'', ''out.webp'', ''-quiet'']]"
proof -
  have h: "getCwebpPath linux_x64 = Inr ''/app/bin/libwebp_linux/bin/cwebp''"
    by (simp add: getCwebpPath_def platform_key_def platformConfig_def linux_x64_def
        path_join_def path_normalize_def isAbsolute_def trailingSeparator_def)
  note first = cwebp_argument_list [OF h, of "''in.png''" "''out.webp''" "''-q  80''" None boot "[]" "[]"]
  note second = cwebp_argument_list [OF h, of "''in.png''" "''out.webp''" "[]" None boot "[]" "[]"]
  show ?thesis
    using conjunct1 [OF conjunct2 [OF first]] conjunct1 [OF conjunct2 [OF second]]
    by (simp add: boot_def)
qed

subsection \<open>The temp directory resolver\<close>

lemma targetPath_falsy:
  "\<not> truthy customPath \<Longrightarrow>
     targetPath E customPath = JStr (path_join [tmpdir E, ''webp-converter-js''])"
  by (simp add: targetPath_def)

lemma getTempPath_Inr_target:
  "getTempPath E customPath w = (Inr q, w') \<Longrightarrow> targetPath E customPath = JStr q"
  by (auto simp: getTempPath_def split: jsval.splits prod.splits sum.splits)




text \<open>
  C10. Called with the empty string, or with any other falsy value, the resolver does
  not use that value: it does exactly what it does when no path is given, and the
  directory it returns is the default one under the temp root of the operating
  system.
\<close>

theorem getTempPath_falsy_default:
  assumes "\<not> truthy customPath"
  shows "getTempPath E customPath w = getTempPath E Undefined w
       \<and> getTempPath E (JStr []) w = getTempPath E Undefined w
       \<and> (\<forall>q w'. getTempPath E customPath w = (Inr q, w')
            \<longrightarrow> q = path_join [tmpdir E, ''webp-converter-js''] \<and> q \<noteq> [])"
proof -
  have t: "targetPath E customPath = targetPath E Undefined"
    using assms by (simp add: targetPath_falsy)
  have e: "targetPath E (JStr []) = targetPath E Undefined"
    by (simp add: targetPath_falsy)
  have n: "path_join [tmpdir E, ''webp-converter-js''] \<noteq> []"
    by (auto simp: path_join_def path_normalize_def Let_def)
  show ?thesis
    using t e n getTempPath_Inr_target [of E customPath w] targetPath_falsy [OF assms, of E]
    by (auto simp: getTempPath_def)
qed

theorem getTempPath_falsy_default_witness:
  "getTempPath linux_x64 (JStr []) boot = getTempPath linux_x64 Undefined boot
   \<and> fst (getTempPath linux_x64 (JNum 0) boot) = Inr ''/tmp/webp-converter-js''"
proof -
  have h: "\<not> truthy (JNum 0)" by simp
  have r: "fst (getTempPath linux_x64 Undefined boot) = Inr ''/tmp/webp-converter-js''"
    by (simp add: getTempPath_def targetPath_def mkdirSync_recursive_def linux_x64_def boot_def
        path_join_def path_normalize_def isAbsolute_def trailingSeparator_def resolve_def
        node_at_def is_dir_def is_file_def ancestors_def emit_def Let_def)
  show ?thesis
    using getTempPath_falsy_default [OF h, of linux_x64 boot] r by simp
qed



subsection \<open>Running the external program\<close>




subsection \<open>The base64 adapter\<close>



subsection \<open>File names of joined paths\<close>


lemma normalizeString_plain:
  "f \<noteq> [] \<Longrightarrow> f \<noteq> ''.'' \<Longrightarrow> f \<noteq> ''..'' \<Longrightarrow> normalizeString a res [f] = res @ [f]"
  by simp











subsection \<open>The steps of the pipeline\<close>

















lemma getTempPath_error:
  assumes "getTempPath E customPath w = (Inl e, w')"
  shows "e = InvalidArgType \<or> (\<exists>c p. e = SystemError c Call_mkdirSync p)"
  using assms
  by (auto simp: getTempPath_def mkdirSync_recursive_def Let_def
      split: jsval.splits prod.splits sum.splits option.splits if_splits)






subsection \<open>Temp file pairs\<close>





subsection \<open>Cleanup\<close>







subsection \<open>Inputs the pipeline does not check first\<close>







end
